theory Spec2Isabelle
  imports Complex_Main
begin

text \<open>
  A model of the two Streamlit programs \<^verbatim>\<open>NGOexcelspider.py\<close> (the tabular workflow: a
  CSV upload) and \<^verbatim>\<open>NGOsliderspider.py\<close> (the slider workflow). The score of the
  tabular workflow is computed in binary floating point, with every sum rounded; the other
  quantities (angles, radii, the fit scores of the slider workflow) are real numbers.
  Python lists that are mutated in place are cells of an explicit store, exceptions are
  values of a sum type.
\<close>

section \<open>Tabular workflow: per-theme score and band\<close>

text \<open>
  The capacities are Python floats (binary64) read from the file. A float is the real
  number it stands for, and an operation rounds its exact result to the nearest float,
  ties to the even significand. \<open>binade n k x\<close> looks for the exponent of \<open>x\<close> from \<open>k\<close>
  downwards in at most \<open>n\<close> steps; from 1023 in 2045 steps it ends at -1022, where the
  subnormal numbers begin and the spacing stays 2^-1074. Overflow is left out: every sum
  formed here is at most 20 in absolute value.
\<close>

definition round_half_even :: "real \<Rightarrow> int" where
  "round_half_even y =
     (let f = \<lfloor>y\<rfloor>; d = y - of_int f
      in if d < 1 / 2 then f
         else if d > 1 / 2 then f + 1
         else if even f then f else f + 1)"

fun binade :: "nat \<Rightarrow> int \<Rightarrow> real \<Rightarrow> int" where
  "binade 0 k x = k"
| "binade (Suc n) k x = (if 2 powi k \<le> x then k else binade n (k - 1) x)"

definition round_double :: "real \<Rightarrow> real" where
  "round_double x =
     (let e = binade 2045 1023 \<bar>x\<bar>;
          ulp = 2 powi (e - 52)
      in sgn x * of_int (round_half_even (\<bar>x\<bar> / ulp)) * ulp)"

definition float_add :: "real \<Rightarrow> real \<Rightarrow> real" where
  "float_add a b = round_double (a + b)"

text \<open>
  \<^verbatim>\<open>score = -10 + ngo_cap + comm_cap\<close> in the loop over the themes of the tabular
  \<^verbatim>\<open>main\<close>: Python adds from the left, \<^verbatim>\<open>(-10 + ngo_cap) + comm_cap\<close>.
\<close>

definition score :: "real \<Rightarrow> real \<Rightarrow> real" where
  "score ngo_cap comm_cap = float_add (float_add (-10) ngo_cap) comm_cap"

text \<open>
  The two \<^verbatim>\<open>if/elif/elif/else\<close> chains over the score (the colour of the number and
  the comment beside it) test the same conditions in the same order.
\<close>

datatype band = Aligned | Redundant | Gap | PartialGap

definition band_of :: "real \<Rightarrow> band" where
  "band_of s =
     (if s = 0 then Aligned
      else if s > 0 then Redundant
      else if s < -2 then Gap
      else PartialGap)"

section \<open>Tabular workflow: loading the uploaded file\<close>

text \<open>
  A cell of the table. \<open>Num r\<close> is a number, or a text that the numeric coercions
  (\<^verbatim>\<open>pd.to_numeric\<close>, \<^verbatim>\<open>float\<close>) read as \<open>r\<close>; \<open>NaN\<close> is a missing value; \<open>Text t\<close> is a
  text that no numeric coercion accepts. An infinite value behaves in this function like
  a number above 10.
\<close>

datatype cell = Num real | NaN | Text string

text \<open>A Python float: \<^verbatim>\<open>float(nan)\<close> is \<^verbatim>\<open>nan\<close> and raises nothing.\<close>

datatype pyfloat = Val real | NotANumber

text \<open>
  The messages of \<^verbatim>\<open>st.error\<close>, each followed by \<^verbatim>\<open>return None, None, None\<close>:
  \<^item> \<open>SchemaError\<close>: "CSV file must have at least 3 columns ...";
  \<^item> \<open>RowCountError n\<close>: "CSV file must have at least n rows of data (including headers
    if present)";
  \<^item> \<open>ExactRowsError\<close>: "Expected exactly 9 rows of data";
  \<^item> \<open>NonNumericError\<close>: "All capacity values must be numeric. ...";
  \<^item> \<open>RangeError n\<close>: "Values in row n are out of range. ...";
  \<^item> \<open>ReadError\<close>: "Error reading CSV file: ...", the outermost \<^verbatim>\<open>except Exception\<close>.
\<close>

datatype load_error =
    SchemaError
  | RowCountError nat
  | ExactRowsError
  | NonNumericError
  | RangeError nat
  | ReadError

text \<open>The data frame: \<^verbatim>\<open>df.shape[1]\<close> and the rows that \<^verbatim>\<open>df.iloc\<close> addresses.\<close>

record frame =
  ncols :: nat
  rows :: "cell list list"

text \<open>
  \<^verbatim>\<open>df = pd.read_csv(uploaded_file)\<close>, called with the library's defaults. The uploaded
  file is given as its lines, each a list of cells.
  \<^item> Blank lines are skipped.
  \<^item> The first line gives the column names and is not a row of the frame; the lines after
    it are rows 0, 1, ... of the frame. A file without any line raises (no columns to
    parse), which the outermost handler reports.
  \<^item> When the first data line has more fields than there are names, its surplus leading
    fields are taken as the index of the frame, in every line, and are not columns.
  \<^item> A data line with more fields than the names and the first data line have raises a
    parser error, which the outermost handler reports.
\<close>

definition read_csv :: "cell list list \<Rightarrow> load_error + frame" where
  "read_csv lines =
     (case filter (\<lambda>l. l \<noteq> []) lines of
        [] \<Rightarrow> Inl ReadError
      | names # body \<Rightarrow>
          let width = (case body of [] \<Rightarrow> length names
                       | first # rest \<Rightarrow> max (length names) (length first));
              leading_cols = width - length names
          in if list_ex (\<lambda>l. width < length l) body then Inl ReadError
             else Inr \<lparr>ncols = length names, rows = map (drop leading_cols) body\<rparr>)"

text \<open>A line with fewer fields than there are columns is filled with missing values.\<close>

definition iloc :: "cell list \<Rightarrow> nat \<Rightarrow> cell" where
  "iloc row j = (if j < length row then row ! j else NaN)"

text \<open>Whether \<^verbatim>\<open>pd.to_numeric\<close> returns (true) or raises \<^verbatim>\<open>ValueError\<close> (false).\<close>

definition to_numeric :: "cell \<Rightarrow> bool" where
  "to_numeric c = (case c of Text t \<Rightarrow> False | _ \<Rightarrow> True)"

text \<open>\<^verbatim>\<open>float(x)\<close>; \<^const>\<open>None\<close> when it raises.\<close>

definition to_float :: "cell \<Rightarrow> pyfloat option" where
  "to_float c = (case c of Num r \<Rightarrow> Some (Val r) | NaN \<Rightarrow> Some NotANumber | Text t \<Rightarrow> None)"

text \<open>\<^verbatim>\<open>0 <= x <= 10\<close>, false for \<^verbatim>\<open>nan\<close>.\<close>

definition in_range :: "pyfloat \<Rightarrow> bool" where
  "in_range x = (case x of Val r \<Rightarrow> 0 \<le> r \<and> r \<le> 10 | NotANumber \<Rightarrow> False)"

text \<open>
  The loop \<^verbatim>\<open>for i, (comm_cap, ngo_cap) in enumerate(zip(...))\<close>: the index of the first
  pair with a value out of range.
\<close>

fun first_out_of_range :: "nat \<Rightarrow> (pyfloat \<times> pyfloat) list \<Rightarrow> nat option" where
  "first_out_of_range i [] = None"
| "first_out_of_range i ((comm_cap, ngo_cap) # rest) =
     (if \<not> in_range comm_cap \<or> \<not> in_range ngo_cap then Some i
      else first_out_of_range (Suc i) rest)"

text \<open>
  \<^verbatim>\<open>start_row\<close>: 0 when the second and third value of row 0 of the frame are numeric,
  1 otherwise. Only used on a frame with a row 0.
\<close>

definition header_skip :: "cell list list \<Rightarrow> nat" where
  "header_skip rs =
     (if to_numeric (iloc (hd rs) 1) \<and> to_numeric (iloc (hd rs) 2) then 0 else 1)"

text \<open>
  From \<^verbatim>\<open>themes = df.iloc[start_row:end_row, 0].tolist()\<close> to the final \<^verbatim>\<open>return\<close>, on the
  rows of the slice.
\<close>

definition validate_rows ::
  "nat \<Rightarrow> cell list list \<Rightarrow> load_error + (cell list \<times> pyfloat list \<times> pyfloat list)" where
  "validate_rows start_row selected =
     (let themes = map (\<lambda>r. iloc r 0) selected;
          community_capacities = map (\<lambda>r. iloc r 1) selected;
          ngo_capabilities = map (\<lambda>r. iloc r 2) selected
      in if length themes \<noteq> 9 \<or> length community_capacities \<noteq> 9
            \<or> length ngo_capabilities \<noteq> 9
         then Inl ExactRowsError
         else
           (case (those (map to_float community_capacities),
                  those (map to_float ngo_capabilities)) of
              (Some comm, Some ngo) \<Rightarrow>
                (case first_out_of_range 0 (zip comm ngo) of
                   Some i \<Rightarrow> Inl (RangeError (i + start_row + 1))
                 | None \<Rightarrow> Inr (themes, comm, ngo))
            | _ \<Rightarrow> Inl NonNumericError))"

text \<open>
  The body of \<^verbatim>\<open>load_data_from_csv\<close> after the file is read. On a frame without rows
  \<^verbatim>\<open>df.iloc[0, 1]\<close> raises \<^verbatim>\<open>IndexError\<close>, which only the outermost handler catches.
\<close>

definition load_frame :: "frame \<Rightarrow> load_error + (cell list \<times> pyfloat list \<times> pyfloat list)" where
  "load_frame df =
     (if ncols df < 3 then Inl SchemaError
      else if rows df = [] then Inl ReadError
      else
        let start_row = header_skip (rows df);
            end_row = start_row + 9
        in if length (rows df) < end_row then Inl (RowCountError (9 + start_row))
           else validate_rows start_row (drop start_row (take end_row (rows df))))"

definition load_data_from_csv ::
  "cell list list \<Rightarrow> load_error + (cell list \<times> pyfloat list \<times> pyfloat list)" where
  "load_data_from_csv uploaded_file =
     (case read_csv uploaded_file of
        Inl e \<Rightarrow> Inl e
      | Inr df \<Rightarrow> load_frame df)"

text \<open>
  The example table of the source (the commented-out \<^verbatim>\<open>example_data\<close>) with a line of
  column names, used below to run the loader.
\<close>

definition header_line :: "cell list" where
  "header_line = [Text ''Theme'', Text ''Community Capacity'', Text ''NGO Capability'']"

definition example_rows :: "cell list list" where
  "example_rows =
    [ [Text ''1.1 Awareness & Education'', Num 7, Num 8],
     [Text ''1.2 Community Governance'', Num 5, Num 6],
     [Text ''1.3 Tradition Preservation'', Num 8, Num 7],
     [Text ''2.1 Income & Revenue'', Num 6, Num 5],
     [Text ''2.2 Employment'', Num 4, Num 7],
     [Text ''2.3 Amenities'', Num 5, Num 4],
     [Text ''3.1 Habitat Conservation'', Num 9, Num 9],
     [Text ''3.2 Shark Preservation'', Num 7, Num 8],
     [Text ''3.3 Protected Area'', Num 8, Num 9] ]"

definition example_themes :: "cell list" where
  "example_themes =
    [Text ''1.1 Awareness & Education'', Text ''1.2 Community Governance'',
     Text ''1.3 Tradition Preservation'', Text ''2.1 Income & Revenue'',
     Text ''2.2 Employment'', Text ''2.3 Amenities'',
     Text ''3.1 Habitat Conservation'', Text ''3.2 Shark Preservation'',
     Text ''3.3 Protected Area'']"

definition example_community :: "pyfloat list" where
  "example_community = [Val 7, Val 5, Val 8, Val 6, Val 4, Val 5, Val 9, Val 7, Val 8]"

definition example_ngo :: "pyfloat list" where
  "example_ngo = [Val 8, Val 6, Val 7, Val 5, Val 7, Val 4, Val 9, Val 8, Val 9]"

section \<open>Tabular workflow: the recommendation of a partial gap\<close>

text \<open>
  \<^verbatim>\<open>str.lower\<close> on ASCII text, \<^verbatim>\<open>str.split()\<close> (runs of whitespace separate the words)
  and the substring test \<^verbatim>\<open>sub in s\<close>.
\<close>

definition lower_char :: "char \<Rightarrow> char" where
  "lower_char c =
     (case map_of (zip ''ABCDEFGHIJKLMNOPQRSTUVWXYZ'' ''abcdefghijklmnopqrstuvwxyz'') c of
        Some l \<Rightarrow> l
      | None \<Rightarrow> c)"

definition lower :: "string \<Rightarrow> string" where
  "lower s = map lower_char s"

definition is_space :: "char \<Rightarrow> bool" where
  "is_space c = (c = CHR '' '' \<or> (of_char c :: nat) \<in> {9, 10, 11, 12, 13, 28, 29, 30, 31})"

fun split_from :: "string \<Rightarrow> string \<Rightarrow> string list" where
  "split_from w [] = (if w = [] then [] else [w])"
| "split_from w (c # cs) =
     (if is_space c then (if w = [] then split_from [] cs else w # split_from [] cs)
      else split_from (w @ [c]) cs)"

definition split :: "string \<Rightarrow> string list" where
  "split s = split_from [] s"

fun starts_with :: "string \<Rightarrow> string \<Rightarrow> bool" where
  "starts_with [] s = True"
| "starts_with (p # ps) [] = False"
| "starts_with (p # ps) (c # cs) = (p = c \<and> starts_with ps cs)"

fun contains :: "string \<Rightarrow> string \<Rightarrow> bool" where
  "contains sub [] = (sub = [])"
| "contains sub (c # cs) = (starts_with sub (c # cs) \<or> contains sub cs)"

text \<open>The dictionary \<^verbatim>\<open>strategic_recommendations\<close>, in its order of insertion.\<close>

definition strategic_recommendations :: "(string \<times> string) list" where
  "strategic_recommendations =
    [(''1.1 Awareness & Education'', ''improving communication on the effects of conservation, or reaching out to younger generations''),
     (''1.2 Community Governance'', ''strengthening ties with community members to gain trust''),
     (''1.3 Tradition Preservation'', ''collaborating with the community to include traditional elements in ecotourism''),
     (''2.1 Income & Revenue'', ''adapting business model to increase the portion of the revenue reserved for tour guide salaries and conservation''),
     (''2.2 Employment'', ''offer employment to more local residents with opportunities to develop skills and expertise''),
     (''2.3 Amenities'', ''improve infrastructure for the daily lives of residents and adapt it to accommodate tourists''),
     (''3.1 Habitat Conservation'', ''creating habitat improvements for the natural resource''),
     (''3.2 Shark Preservation'', ''strengthening fishing conservation efforts''),
     (''3.3 Protected Area'', ''strengthening and implementing area protection regulations'')]"

text \<open>
  \<^verbatim>\<open>key.lower() in theme.lower() or any(word in theme.lower() for word in key.lower().split())\<close>
\<close>

definition key_matches :: "string \<Rightarrow> string \<Rightarrow> bool" where
  "key_matches key theme =
     (contains (lower key) (lower theme)
      \<or> list_ex (\<lambda>word. contains word (lower theme)) (split (lower key)))"

text \<open>The loop over \<^verbatim>\<open>strategic_recommendations.items()\<close> with its \<^verbatim>\<open>break\<close>.\<close>

fun find_recommendation :: "(string \<times> string) list \<Rightarrow> string \<Rightarrow> string option" where
  "find_recommendation [] theme = None"
| "find_recommendation ((key, val) # items) theme =
     (if key_matches key theme then Some val else find_recommendation items theme)"

definition recommendation :: "string \<Rightarrow> string" where
  "recommendation theme =
     (case find_recommendation strategic_recommendations theme of
        None \<Rightarrow> ''general strategic adjustments''
      | Some val \<Rightarrow> val)"

text \<open>
  The comment column of one theme: the band of its score and, in the last branch only,
  the recommendation looked up from the theme's name.
\<close>

definition theme_comment :: "string \<Rightarrow> real \<Rightarrow> real \<Rightarrow> band \<times> string option" where
  "theme_comment theme ngo_cap comm_cap =
     (let b = band_of (score ngo_cap comm_cap)
      in (b, if b = PartialGap then Some (recommendation theme) else None))"

section \<open>Radar chart\<close>

text \<open>
  \<^verbatim>\<open>create_radar_chart\<close> extends its two list arguments in place, so the lists live in
  a store: a list object is an address, \<^verbatim>\<open>.copy()\<close> allocates a fresh address, and
  \<^verbatim>\<open>xs += xs[:1]\<close> updates the cell of \<^verbatim>\<open>xs\<close>. An address is allocated when it is below
  \<open>next_addr\<close>.
\<close>

type_synonym addr = nat

record store =
  cells :: "addr \<Rightarrow> real list"
  next_addr :: addr

definition empty_store :: store where
  "empty_store = \<lparr>cells = (\<lambda>a. []), next_addr = 0\<rparr>"

definition new_list :: "store \<Rightarrow> real list \<Rightarrow> addr \<times> store" where
  "new_list s xs = (next_addr s, s\<lparr>cells := (cells s)(next_addr s := xs), next_addr := Suc (next_addr s)\<rparr>)"

definition list_copy :: "store \<Rightarrow> addr \<Rightarrow> addr \<times> store" where
  "list_copy s a = new_list s (cells s a)"

text \<open>\<^verbatim>\<open>xs += xs[:1]\<close>: the slice of an empty list is empty.\<close>

definition extend_first :: "store \<Rightarrow> addr \<Rightarrow> store" where
  "extend_first s a = s\<lparr>cells := (cells s)(a := cells s a @ take 1 (cells s a))\<rparr>"

text \<open>
  \<^verbatim>\<open>angles = [n / float(N) * 2 * pi for n in range(N)]; angles += angles[:1]\<close>.
  For \<open>N = 0\<close> the range is empty and nothing is divided.
\<close>

definition chart_angles :: "nat \<Rightarrow> real list" where
  "chart_angles N =
     (let angles = map (\<lambda>n. real n / real N * 2 * pi) [0..<N]
      in angles @ take 1 angles)"

datatype chart_error = ValueError | ZeroDivisionError

text \<open>What is handed to the plotting library: the geometry of the figure.\<close>

record 'c figure =
  plot_angles :: "real list"
  ngo_line :: "real list"
  community_outer :: "real list"
  community_fill_values :: "real list"
  xticks :: "real list"
  xticklabels :: "'c list"

text \<open>
  The two files define the same function up to cosmetics; \<open>numbered\<close> is true for the
  tabular file, whose ring labels are placed at \<^verbatim>\<open>angle_offset = pi/N\<close>, a division that
  raises for \<open>N = 0\<close>. The plotting calls raise \<^verbatim>\<open>ValueError\<close> when a series and the
  angles differ in length. The lists are extended before anything can raise, so the
  updated store is returned in every case.
\<close>

definition create_radar_chart ::
  "bool \<Rightarrow> store \<Rightarrow> addr \<Rightarrow> addr \<Rightarrow> 'c list \<Rightarrow> store \<times> (chart_error + 'c figure)" where
  "create_radar_chart numbered s ngo_capabilities community_capacities categories =
     (let N = length categories;
          angles = chart_angles N;
          s1 = extend_first s ngo_capabilities;
          s2 = extend_first s1 community_capacities;
          ngo = cells s2 ngo_capabilities;
          comm = cells s2 community_capacities;
          max_value = 10;
          outer = replicate (length comm) max_value;
          fill_values = map (\<lambda>val. max_value - val) comm
      in (s2,
          if length ngo \<noteq> length angles \<or> length comm \<noteq> length angles then Inl ValueError
          else if numbered \<and> N = 0 then Inl ZeroDivisionError
          else Inr \<lparr>plot_angles = angles, ngo_line = ngo, community_outer = outer,
                    community_fill_values = fill_values, xticks = butlast angles,
                    xticklabels = categories\<rparr>))"

text \<open>
  The call of both \<^verbatim>\<open>main\<close> functions:
  \<^verbatim>\<open>create_radar_chart(ngo_capabilities.copy(), community_capacities.copy(), themes)\<close>.
\<close>

definition chart_of_copies ::
  "bool \<Rightarrow> store \<Rightarrow> addr \<Rightarrow> addr \<Rightarrow> 'c list \<Rightarrow> store \<times> (chart_error + 'c figure)" where
  "chart_of_copies numbered s ngo_capabilities community_capacities themes =
     (let (ngo_copy, s1) = list_copy s ngo_capabilities;
          (comm_copy, s2) = list_copy s1 community_capacities
      in create_radar_chart numbered s2 ngo_copy comm_copy themes)"

section \<open>Slider workflow: fit score\<close>

text \<open>The constant list \<^verbatim>\<open>ngo_capabilities\<close> of the slider \<^verbatim>\<open>main\<close>.\<close>

definition ngo_capabilities :: "int list" where
  "ngo_capabilities = [5, 4, 5, 3, 4, 2, 4, 6, 6]"

text \<open>
  \<^verbatim>\<open>fit_score = min(ngo_cap, comm_cap) + (abs(ngo_cap - comm_cap) * 0.1)\<close>; both
  arguments are integers (the constants above and the slider values, step 1).
\<close>

definition fit_score :: "int \<Rightarrow> int \<Rightarrow> real" where
  "fit_score ngo_cap comm_cap =
     real_of_int (min ngo_cap comm_cap) + real_of_int \<bar>ngo_cap - comm_cap\<bar> * (1 / 10)"

text \<open>
  The loop \<^verbatim>\<open>for ngo_cap, comm_cap in zip(ngo_capabilities[:-1], community_capacities)\<close>:
  the slice \<^verbatim>\<open>[:-1]\<close> is \<^const>\<open>butlast\<close>, and \<^verbatim>\<open>zip\<close> stops at the shorter list.
\<close>

definition fit_scores :: "int list \<Rightarrow> int list \<Rightarrow> real list" where
  "fit_scores ngo comm = map (\<lambda>(ngo_cap, comm_cap). fit_score ngo_cap comm_cap) (zip (butlast ngo) comm)"

text \<open>\<^verbatim>\<open>np.mean\<close>; of an empty list it is \<^verbatim>\<open>nan\<close>, here \<^const>\<open>None\<close>.\<close>

definition np_mean :: "real list \<Rightarrow> real option" where
  "np_mean xs = (if xs = [] then None else Some (sum_list xs / real (length xs)))"

definition overall_fit :: "int list \<Rightarrow> real option" where
  "overall_fit community_capacities = np_mean (fit_scores ngo_capabilities community_capacities)"

text \<open>
  The recommendation chain \<^verbatim>\<open>if overall_fit >= 8 ... elif overall_fit >= 6 ... else\<close>;
  every comparison with \<^verbatim>\<open>nan\<close> is false, so \<^verbatim>\<open>nan\<close> takes the last branch.
\<close>

datatype fit_band = Excellent | Good | Limited

definition fit_band_of :: "real option \<Rightarrow> fit_band" where
  "fit_band_of m =
     (case m of None \<Rightarrow> Limited
      | Some fit \<Rightarrow>
          if fit \<ge> 8 then Excellent
          else if fit \<ge> 6 then Good
          else Limited)"

section \<open>Properties of the scores\<close>

lemma round_half_even_of_int: "round_half_even (of_int z) = z"
  by (simp add: round_half_even_def)

lemma round_half_even_le:
  assumes "y \<le> of_int N"
  shows "round_half_even y \<le> N"
proof (cases "y = of_int N")
  case True
  then show ?thesis by (simp add: round_half_even_of_int)
next
  case False
  then have "y < of_int N" using assms by simp
  then have "\<lfloor>y\<rfloor> < N" by (simp add: floor_less_iff)
  then show ?thesis by (simp add: round_half_even_def Let_def)
qed

lemma round_half_even_nonneg:
  assumes "0 \<le> y"
  shows "0 \<le> round_half_even y"
proof -
  have "0 \<le> \<lfloor>y\<rfloor>" using assms by simp
  then show ?thesis by (simp add: round_half_even_def Let_def)
qed

lemma power_int_2_less_cancel:
  assumes "(2::real) powi k < 2 powi j"
  shows "k < j"
proof (rule ccontr)
  assume "\<not> k < j"
  then have "(2::real) powi j \<le> 2 powi k" by (intro power_int_increasing) simp_all
  then show False using assms by simp
qed

lemma binade_upper:
  assumes "x < 2 powi (j + 1)" and "k - int n \<le> j"
  shows "binade n k x \<le> j"
  using assms
proof (induction n arbitrary: k)
  case 0
  then show ?case by simp
next
  case (Suc n)
  show ?case
  proof (cases "2 powi k \<le> x")
    case True
    then have "(2::real) powi k < 2 powi (j + 1)" using Suc.prems(1) by simp
    then have "k < j + 1" by (rule power_int_2_less_cancel)
    then show ?thesis using True by simp
  next
    case False
    have "binade n (k - 1) x \<le> j" using Suc.prems by (intro Suc.IH) simp_all
    then show ?thesis using False by simp
  qed
qed

lemma binade_eq:
  assumes "2 powi e \<le> x" and "x < 2 powi (e + 1)" and "e \<le> k" and "k - e \<le> int n"
  shows "binade n k x = e"
  using assms
proof (induction n arbitrary: k)
  case 0
  then show ?case by simp
next
  case (Suc n)
  show ?case
  proof (cases "2 powi k \<le> x")
    case True
    then have "(2::real) powi k < 2 powi (e + 1)" using Suc.prems(2) by simp
    then have "k < e + 1" by (rule power_int_2_less_cancel)
    then show ?thesis using True Suc.prems(3) by simp
  next
    case False
    then have "k \<noteq> e" using Suc.prems(1) by auto
    then have "binade n (k - 1) x = e" using Suc.prems by (intro Suc.IH) simp_all
    then show ?thesis using False by simp
  qed
qed

lemma ulp_inverse:
  assumes "e \<le> 52"
  shows "(2::real) powi (e - 52) = 1 / 2 ^ nat (52 - e)"
proof -
  have "(2::real) powi (e - 52) = 2 powi (- int (nat (52 - e)))" using assms by simp
  also have "\<dots> = 1 / 2 ^ nat (52 - e)"
    by (simp only: power_int_minus power_int_of_nat inverse_eq_divide)
  finally show ?thesis .
qed

lemma round_double_sign:
  shows "0 \<le> x \<Longrightarrow> 0 \<le> round_double x" and "x \<le> 0 \<Longrightarrow> round_double x \<le> 0"
proof -
  let ?u = "(2::real) powi (binade 2045 1023 \<bar>x\<bar> - 52)"
  have u: "0 < ?u" by simp
  have "0 \<le> \<bar>x\<bar> / ?u" using u by simp
  then have r: "0 \<le> real_of_int (round_half_even (\<bar>x\<bar> / ?u)) * ?u"
    using round_half_even_nonneg u by simp
  have e: "round_double x = sgn x * (real_of_int (round_half_even (\<bar>x\<bar> / ?u)) * ?u)"
    by (simp add: round_double_def Let_def)
  show "0 \<le> x \<Longrightarrow> 0 \<le> round_double x" unfolding e using r by (simp add: sgn_if)
  show "x \<le> 0 \<Longrightarrow> round_double x \<le> 0" unfolding e using r by (simp add: sgn_if)
qed

lemma round_double_abs_le:
  assumes "\<bar>x\<bar> \<le> 10"
  shows "\<bar>round_double x\<bar> \<le> 10"
proof -
  define e where "e = binade 2045 1023 \<bar>x\<bar>"
  define d where "d = nat (52 - e)"
  have "\<bar>x\<bar> < 2 powi (3 + 1)" using assms by simp
  then have e3: "e \<le> 3" unfolding e_def by (rule binade_upper) simp
  then have u: "(2::real) powi (e - 52) = 1 / 2 ^ d" unfolding d_def by (intro ulp_inverse) simp
  define R where "R = real_of_int (round_half_even (\<bar>x\<bar> / (1 / 2 ^ d))) * (1 / 2 ^ d)"
  have "\<bar>x\<bar> / (1 / 2 ^ d) \<le> 10 * 2 ^ d" using assms by simp
  also have "(10::real) * 2 ^ d = of_int (10 * 2 ^ d)" by simp
  finally have "round_half_even (\<bar>x\<bar> / (1 / 2 ^ d)) \<le> 10 * 2 ^ d" by (rule round_half_even_le)
  then have "real_of_int (round_half_even (\<bar>x\<bar> / (1 / 2 ^ d))) \<le> 10 * 2 ^ d"
    by (metis of_int_le_iff of_int_mult of_int_numeral of_int_power)
  then have le: "R \<le> 10" unfolding R_def by (simp add: field_simps)
  have "0 \<le> \<bar>x\<bar> / (1 / 2 ^ d)" by simp
  then have "0 \<le> real_of_int (round_half_even (\<bar>x\<bar> / (1 / 2 ^ d)))"
    using round_half_even_nonneg by simp
  then have ge: "0 \<le> R" unfolding R_def by simp
  have "round_double x = sgn x * R"
    unfolding R_def by (simp add: round_double_def Let_def e_def[symmetric] u)
  then have "\<bar>round_double x\<bar> = \<bar>sgn x\<bar> * R" using ge by (simp add: abs_mult)
  also have "\<dots> \<le> 1 * R" using ge by (intro mult_right_mono) (simp_all add: sgn_if)
  finally show ?thesis using le by simp
qed

lemma round_double_of_int:
  assumes "\<bar>n\<bar> < 2 ^ 53"
  shows "round_double (of_int n) = of_int n"
proof -
  define e where "e = binade 2045 1023 \<bar>real_of_int n\<bar>"
  define d where "d = nat (52 - e)"
  have "\<bar>real_of_int n\<bar> < 2 ^ 53" using assms by (metis of_int_abs of_int_less_iff of_int_numeral of_int_power)
  then have "\<bar>real_of_int n\<bar> < 2 powi (52 + 1)" by simp
  then have "e \<le> 52" unfolding e_def by (rule binade_upper) simp
  then have u: "(2::real) powi (e - 52) = 1 / 2 ^ d" unfolding d_def by (rule ulp_inverse)
  have "\<bar>real_of_int n\<bar> / (1 / 2 ^ d) = of_int (\<bar>n\<bar> * 2 ^ d)" by simp
  then have "round_half_even (\<bar>real_of_int n\<bar> / (1 / 2 ^ d)) = \<bar>n\<bar> * 2 ^ d"
    by (simp only: round_half_even_of_int)
  then have "round_double (of_int n) = sgn (real_of_int n) * (of_int (\<bar>n\<bar> * 2 ^ d) * (1 / 2 ^ d))"
    by (simp add: round_double_def Let_def e_def[symmetric] u)
  also have "\<dots> = sgn (real_of_int n) * \<bar>real_of_int n\<bar>" by simp
  also have "\<dots> = of_int n" by (simp add: sgn_if)
  finally show ?thesis .
qed

lemma round_double_at:
  assumes "2 powi e \<le> \<bar>x\<bar>" and "\<bar>x\<bar> < 2 powi (e + 1)" and "- 1022 \<le> e" and "e \<le> 1023"
  shows "round_double x = sgn x * of_int (round_half_even (\<bar>x\<bar> / 2 powi (e - 52))) * 2 powi (e - 52)"
proof -
  have "binade 2045 1023 \<bar>x\<bar> = e" using assms by (intro binade_eq) simp_all
  then show ?thesis by (simp add: round_double_def Let_def)
qed

lemma score_whole_numbers:
  assumes "0 \<le> m" "m \<le> 10" "0 \<le> n" "n \<le> 10"
  shows "score (of_int m) (of_int n) = of_int m + of_int n - 10"
proof -
  have 1: "float_add (-10) (of_int m) = of_int (m - 10)"
    using round_double_of_int[of "m - 10"] assms by (simp add: float_add_def)
  have 2: "float_add (of_int (m - 10)) (of_int n) = of_int (m - 10 + n)"
    using round_double_of_int[of "m - 10 + n"] assms by (simp add: float_add_def)
  show ?thesis unfolding score_def 1 2 by simp
qed

lemma score_range:
  assumes "0 \<le> org" "org \<le> 10" "0 \<le> comm" "comm \<le> 10"
  shows "-10 \<le> score org comm" and "score org comm \<le> 10"
proof -
  define c where "c = float_add (-10) org"
  have "\<bar>-10 + org\<bar> \<le> 10" "-10 + org \<le> 0" using assms by simp_all
  then have "\<bar>c\<bar> \<le> 10" "c \<le> 0"
    unfolding c_def float_add_def using round_double_abs_le round_double_sign(2) by blast+
  then have "\<bar>c + comm\<bar> \<le> 10" using assms by (simp add: abs_le_iff)
  then have "\<bar>score org comm\<bar> \<le> 10"
    unfolding score_def c_def[symmetric] float_add_def[of c] by (rule round_double_abs_le)
  then show "-10 \<le> score org comm" and "score org comm \<le> 10" by (simp_all add: abs_le_iff)
qed

lemma score_tiny:
  "score (1 / 2 ^ 60) 10 = 0"
proof -
  have "round_double (-10 + 1 / 2 ^ 60) = -10"
    by (subst round_double_at[where e = 3]) (simp_all add: round_half_even_def power_int_minus)
  then show ?thesis
    using round_double_of_int[of 0] by (simp add: score_def float_add_def)
qed

lemma score_07_73:
  "score (3152519739159347 / 2 ^ 52) (8219069319951155 / 2 ^ 50) = - (2 + 1 / 2 ^ 50)"
proof -
  have 1: "round_double (-10 + 3152519739159347 / 2 ^ 52) = - (5235434566818202 / 2 ^ 49)"
    by (subst round_double_at[where e = 3]) (simp_all add: round_half_even_def power_int_minus)
  have 2: "round_double (- (5235434566818202 / 2 ^ 49) + 8219069319951155 / 2 ^ 50) = - (2 + 1 / 2 ^ 50)"
    by (subst round_double_at[where e = 1]) (simp_all add: round_half_even_def power_int_minus)
  show ?thesis unfolding score_def float_add_def 1 2 ..
qed

text \<open>
  C6 as stated fails in floating point. For the floats written 0.7 and 7.3 in the file
  the program's score is -2.000000000000001, that is -(2 + 2^-50), while the sum of the
  two floats less 10 is -(2 + 2^-52). For the capability 2^-60 and the capacity 10 the
  first sum rounds to -10, the score is 0 and the band Aligned, though
  org + comm - 10 is above 0.
\<close>

theorem score_rounding_counterexample:
  "(0::real) \<le> 3152519739159347 / 2 ^ 52 \<and> (3152519739159347::real) / 2 ^ 52 \<le> 10
   \<and> (0::real) \<le> 8219069319951155 / 2 ^ 50 \<and> (8219069319951155::real) / 2 ^ 50 \<le> 10
   \<and> score (3152519739159347 / 2 ^ 52) (8219069319951155 / 2 ^ 50) = - (2 + 1 / 2 ^ 50)
   \<and> (3152519739159347::real) / 2 ^ 52 + 8219069319951155 / 2 ^ 50 - 10 = - (2 + 1 / 2 ^ 52)
   \<and> score (3152519739159347 / 2 ^ 52) (8219069319951155 / 2 ^ 50)
       \<noteq> 3152519739159347 / 2 ^ 52 + 8219069319951155 / 2 ^ 50 - 10
   \<and> score (1 / 2 ^ 60) 10 = 0
   \<and> band_of (score (1 / 2 ^ 60) 10) = Aligned
   \<and> (0::real) < 1 / 2 ^ 60 + 10 - 10"
proof -
  have a: "(3152519739159347::real) / 2 ^ 52 + 8219069319951155 / 2 ^ 50 - 10 = - (2 + 1 / 2 ^ 52)"
    by simp
  have b: "- (2 + 1 / 2 ^ 50) \<noteq> - (2 + 1 / 2 ^ 52 :: real)" by simp
  show ?thesis
    unfolding score_07_73 score_tiny a using b by (simp add: band_of_def)
qed

text \<open>
  C6 (amended). For capability and capacity values in [0,10] the tabular score is the
  floating-point result of (-10 + org) + comm and lies in [-10,10]; the band follows the
  precedence on that computed score: Aligned exactly at score 0, Redundant exactly above
  0, Gap exactly below -2 and PartialGap exactly on [-2,0). For whole-number values the
  two sums are exact and the score is org + comm - 10. At (10,10) the score is 10 and
  the band Redundant, at (0,0) the score is -10 and the band Gap, at (5,5) the score is
  0 and the band Aligned.
\<close>

theorem score_band_tabular:
  "(0 \<le> org \<and> org \<le> 10 \<and> 0 \<le> comm \<and> comm \<le> 10 \<longrightarrow>
      score org comm = round_double (round_double (-10 + org) + comm)
      \<and> -10 \<le> score org comm \<and> score org comm \<le> 10
      \<and> (band_of (score org comm) = Aligned \<longleftrightarrow> score org comm = 0)
      \<and> (band_of (score org comm) = Redundant \<longleftrightarrow> score org comm > 0)
      \<and> (band_of (score org comm) = Gap \<longleftrightarrow> score org comm < -2)
      \<and> (band_of (score org comm) = PartialGap \<longleftrightarrow> -2 \<le> score org comm \<and> score org comm < 0))
   \<and> (0 \<le> m \<and> m \<le> 10 \<and> 0 \<le> n \<and> n \<le> 10 \<longrightarrow>
        score (of_int m) (of_int n) = of_int m + of_int n - 10)
   \<and> score 10 10 = 10 \<and> band_of (score 10 10) = Redundant
   \<and> score 0 0 = -10 \<and> band_of (score 0 0) = Gap
   \<and> score 5 5 = 0 \<and> band_of (score 5 5) = Aligned"
proof -
  have 1: "score 10 10 = 10" using score_whole_numbers[of 10 10] by simp
  have 2: "score 0 0 = -10" using score_whole_numbers[of 0 0] by simp
  have 3: "score 5 5 = 0" using score_whole_numbers[of 5 5] by simp
  have r: "0 \<le> org \<and> org \<le> 10 \<and> 0 \<le> comm \<and> comm \<le> 10 \<longrightarrow>
      -10 \<le> score org comm \<and> score org comm \<le> 10"
    using score_range by blast
  have d: "score org comm = round_double (round_double (-10 + org) + comm)"
    by (simp add: score_def float_add_def)
  have w: "0 \<le> m \<and> m \<le> 10 \<and> 0 \<le> n \<and> n \<le> 10 \<longrightarrow>
        score (of_int m) (of_int n) = of_int m + of_int n - 10"
    using score_whole_numbers by blast
  have b: "(band_of x = Aligned \<longleftrightarrow> x = 0) \<and> (band_of x = Redundant \<longleftrightarrow> x > 0)
      \<and> (band_of x = Gap \<longleftrightarrow> x < -2) \<and> (band_of x = PartialGap \<longleftrightarrow> -2 \<le> x \<and> x < 0)" for x
    by (simp add: band_of_def)
  show ?thesis
    unfolding 1 2 3 using r w b[of "score org comm"] d by (simp add: band_of_def)
qed

theorem score_band_tabular_witness:
  "(0::real) \<le> 6 \<and> (6::real) \<le> 10 \<and> (0::real) \<le> 3 \<and> (3::real) \<le> 10
   \<and> score 6 3 = -1 \<and> band_of (score 6 3) = PartialGap"
proof -
  have "score 6 3 = -1" using score_band_tabular [of 6 3 6 3] by simp
  then show ?thesis by (simp add: band_of_def)
qed

lemma min_abs_bounds:
  fixes a b :: real
  assumes "0 \<le> a" "a \<le> 10" "0 \<le> b" "b \<le> 10"
  shows "0 \<le> min a b + \<bar>a - b\<bar> * (1 / 10)"
    and "min a b + \<bar>a - b\<bar> * (1 / 10) \<le> 10"
    and "min a b + \<bar>a - b\<bar> * (1 / 10) = 10 \<longleftrightarrow> a = 10 \<and> b = 10"
proof -
  have m: "min a b + \<bar>a - b\<bar> * (1 / 10) = (if a \<le> b then (9 * a + b) / 10 else (9 * b + a) / 10)"
    by (simp add: min_def abs_if field_simps)
  show "0 \<le> min a b + \<bar>a - b\<bar> * (1 / 10)" unfolding m using assms by simp
  show "min a b + \<bar>a - b\<bar> * (1 / 10) \<le> 10" unfolding m using assms by simp
  show "min a b + \<bar>a - b\<bar> * (1 / 10) = 10 \<longleftrightarrow> a = 10 \<and> b = 10"
    unfolding m using assms by (simp add: field_simps) linarith
qed

lemma fit_score_real:
  "fit_score n c = min (real_of_int n) (real_of_int c) + \<bar>real_of_int n - real_of_int c\<bar> * (1 / 10)"
  by (simp add: fit_score_def min_def)

lemma fit_score_bounds:
  assumes "0 \<le> n" "n \<le> 10" "0 \<le> c" "c \<le> 10"
  shows "0 \<le> fit_score n c" and "fit_score n c \<le> 10" and "fit_score n c = 10 \<longleftrightarrow> n = 10 \<and> c = 10"
proof -
  have r: "0 \<le> real_of_int n" "real_of_int n \<le> 10" "0 \<le> real_of_int c" "real_of_int c \<le> 10"
    using assms by simp_all
  show "0 \<le> fit_score n c" unfolding fit_score_real by (rule min_abs_bounds(1)[OF r])
  show "fit_score n c \<le> 10" unfolding fit_score_real by (rule min_abs_bounds(2)[OF r])
  have "fit_score n c = 10 \<longleftrightarrow> real_of_int n = 10 \<and> real_of_int c = 10"
    unfolding fit_score_real by (rule min_abs_bounds(3)[OF r])
  then show "fit_score n c = 10 \<longleftrightarrow> n = 10 \<and> c = 10" by simp
qed

lemma sum_list_bounds:
  fixes xs :: "real list"
  assumes "\<forall>x\<in>set xs. 0 \<le> x \<and> x \<le> b"
  shows "0 \<le> sum_list xs \<and> sum_list xs \<le> b * real (length xs)"
  using assms by (induction xs) (auto simp: algebra_simps)

lemma np_mean_bounds:
  assumes "xs \<noteq> []" "\<forall>x\<in>set xs. 0 \<le> x \<and> x \<le> b"
  shows "\<exists>m. np_mean xs = Some m \<and> 0 \<le> m \<and> m \<le> b"
proof -
  have l: "0 < real (length xs)" using assms(1) by simp
  from sum_list_bounds[OF assms(2)] have "0 \<le> sum_list xs" "sum_list xs \<le> b * real (length xs)" by auto
  then have "0 \<le> sum_list xs / real (length xs)" "sum_list xs / real (length xs) \<le> b"
    using l by (simp_all add: divide_le_eq)
  then show ?thesis using assms(1) by (simp add: np_mean_def)
qed

lemma fit_scores_bounds:
  assumes "\<forall>n\<in>set ngo. 0 \<le> n \<and> n \<le> 10" "\<forall>c\<in>set comm. 0 \<le> c \<and> c \<le> 10"
  shows "\<forall>x\<in>set (fit_scores ngo comm). 0 \<le> x \<and> x \<le> 10"
proof
  fix x assume "x \<in> set (fit_scores ngo comm)"
  then obtain n c where nc: "(n, c) \<in> set (zip (butlast ngo) comm)" and x: "x = fit_score n c"
    by (auto simp: fit_scores_def)
  from nc have "n \<in> set ngo" "c \<in> set comm"
    by (auto dest: set_zip_leftD set_zip_rightD in_set_butlastD)
  then show "0 \<le> x \<and> x \<le> 10" using assms x fit_score_bounds(1,2) by blast
qed

text \<open>
  C10. In the slider workflow every per-theme fit score of two integers in [0,10]
  lies in [0,10] and is 10 only when both are 10; for nine slider values in [0,10]
  the overall fit is a number (not \<^verbatim>\<open>nan\<close>) in [0,10].
\<close>

theorem fit_in_range:
  "(0 \<le> org \<and> org \<le> 10 \<and> 0 \<le> comm \<and> comm \<le> 10 \<longrightarrow>
      0 \<le> fit_score org comm \<and> fit_score org comm \<le> 10
      \<and> (fit_score org comm = 10 \<longleftrightarrow> org = 10 \<and> comm = 10))
   \<and> (length cs = 9 \<and> (\<forall>c\<in>set cs. 0 \<le> c \<and> c \<le> 10) \<longrightarrow>
        (\<exists>m. overall_fit cs = Some m \<and> 0 \<le> m \<and> m \<le> 10))"
proof (intro conjI impI)
  assume a: "length cs = 9 \<and> (\<forall>c\<in>set cs. 0 \<le> c \<and> c \<le> 10)"
  have ngo: "\<forall>n\<in>set ngo_capabilities. 0 \<le> n \<and> n \<le> 10" by (simp add: ngo_capabilities_def)
  have "length (fit_scores ngo_capabilities cs) = 8" using a by (simp add: fit_scores_def ngo_capabilities_def)
  then have ne: "fit_scores ngo_capabilities cs \<noteq> []" by auto
  show "\<exists>m. overall_fit cs = Some m \<and> 0 \<le> m \<and> m \<le> 10"
    unfolding overall_fit_def using np_mean_bounds[OF ne fit_scores_bounds[OF ngo] ] a by blast
qed (use fit_score_bounds in blast)+

theorem fit_in_range_witness:
  "(0::int) \<le> 5 \<and> (5::int) \<le> 10 \<and> (0::int) \<le> 0 \<and> (0::int) \<le> 10 \<and> fit_score 5 0 = 1 / 2
   \<and> length [10, 10, 10, 10, 10, 10, 10, 10, 0 :: int] = 9
   \<and> (\<exists>m. overall_fit [10, 10, 10, 10, 10, 10, 10, 10, 0] = Some m \<and> 0 \<le> m \<and> m \<le> 10)"
  using fit_in_range [of 5 0 "[10, 10, 10, 10, 10, 10, 10, 10, 0]"] by (simp add: fit_score_def)

text \<open>
  C3. The overall fit of the slider workflow is meant to be the mean of the nine
  per-theme fit scores. The program passes copies to the chart, so its own
  \<^verbatim>\<open>ngo_capabilities\<close> still has nine entries when \<^verbatim>\<open>[:-1]\<close> is taken "to exclude the
  duplicate first element": the ninth theme is dropped. With community capacities
  0,0,0,0,0,0,0,0,10 only eight scores are computed, their mean is 33/80 whatever the
  ninth slider says, the band is Limited, and the mean of all nine scores would be 97/90.
\<close>

theorem slider_mean_drops_last:
  "length (fit_scores ngo_capabilities [0, 0, 0, 0, 0, 0, 0, 0, 10]) = 8
   \<and> overall_fit [0, 0, 0, 0, 0, 0, 0, 0, 10] = Some (33 / 80)
   \<and> overall_fit [0, 0, 0, 0, 0, 0, 0, 0, 0] = Some (33 / 80)
   \<and> fit_band_of (overall_fit [0, 0, 0, 0, 0, 0, 0, 0, 10]) = Limited
   \<and> np_mean (map (\<lambda>(n, c). fit_score n c) (zip ngo_capabilities [0, 0, 0, 0, 0, 0, 0, 0, 10])) = Some (97 / 90)"
  by (simp add: overall_fit_def fit_scores_def np_mean_def fit_score_def ngo_capabilities_def
      fit_band_of_def)

section \<open>Properties of the radar chart\<close>

lemma take1_hd: "xs \<noteq> [] \<Longrightarrow> take (Suc 0) xs = [hd xs]"
  by (cases xs) simp_all

lemma cells_extend_first:
  "cells (extend_first s a) b = (if b = a then cells s a @ take 1 (cells s a) else cells s b)"
  by (simp add: extend_first_def)

lemma next_extend_first: "next_addr (extend_first s a) = next_addr s"
  by (simp add: extend_first_def)

lemma fst_create_radar_chart:
  "fst (create_radar_chart numbered s a b cats) = extend_first (extend_first s a) b"
  by (simp add: create_radar_chart_def Let_def)

lemma length_chart_angles: "length (chart_angles N) = (if N = 0 then 0 else Suc N)"
  by (simp add: chart_angles_def Let_def)

lemma chart_angles_nth:
  assumes "i < N"
  shows "chart_angles N ! i = 2 * pi * real i / real N"
  using assms by (simp add: chart_angles_def Let_def nth_append)

lemma closed_nth_length: "xs \<noteq> [] \<Longrightarrow> (xs @ take 1 xs) ! length xs = (xs @ take 1 xs) ! 0"
  by (cases xs) (simp_all add: nth_append)

lemma chart_angles_closing:
  assumes "0 < N"
  shows "chart_angles N ! N = chart_angles N ! 0"
proof -
  let ?xs = "map (\<lambda>n. real n / real N * 2 * pi) [0..<N]"
  have "?xs \<noteq> []" using assms by simp
  from closed_nth_length[OF this] show ?thesis by (simp add: chart_angles_def Let_def)
qed

lemma chart_angles_nine:
  "length (chart_angles 9) = 10
   \<and> (\<forall>i<9. chart_angles 9 ! i = 2 * pi * real i / 9)
   \<and> (\<forall>i<9. \<forall>j<9. i < j \<longrightarrow> chart_angles 9 ! i < chart_angles 9 ! j)
   \<and> 0 \<le> chart_angles 9 ! 0 \<and> chart_angles 9 ! 8 < 2 * pi
   \<and> chart_angles 9 ! 9 = chart_angles 9 ! 0"
proof (intro conjI allI impI)
  show "length (chart_angles 9) = 10" by (simp add: length_chart_angles)
  show "chart_angles 9 ! 9 = chart_angles 9 ! 0" using chart_angles_closing[of 9] by simp
  show "0 \<le> chart_angles 9 ! 0" using chart_angles_nth[of 0 9] by simp
  have "chart_angles 9 ! 8 = 2 * pi * 8 / 9" using chart_angles_nth[of 8 9] by simp
  moreover have "2 * pi * 8 / 9 < 2 * pi" using pi_gt_zero by simp
  ultimately show "chart_angles 9 ! 8 < 2 * pi" by (simp only:)
next
  fix i :: nat assume "i < 9"
  then show "chart_angles 9 ! i = 2 * pi * real i / 9" using chart_angles_nth[of i 9] by simp
next
  fix i j :: nat assume "i < 9" "j < 9" "i < j"
  then have e: "chart_angles 9 ! i = 2 * pi * real i / 9" "chart_angles 9 ! j = 2 * pi * real j / 9"
    using chart_angles_nth[of i 9] chart_angles_nth[of j 9] by simp_all
  have "2 * pi * real i / 9 < 2 * pi * real j / 9" using \<open>i < j\<close> pi_gt_zero by simp
  then show "chart_angles 9 ! i < chart_angles 9 ! j" by (simp only: e)
qed

lemma cells_after_chart:
  assumes "a \<noteq> b"
  shows "cells (fst (create_radar_chart numbered s a b cats)) a = cells s a @ take 1 (cells s a)"
    and "cells (fst (create_radar_chart numbered s a b cats)) b = cells s b @ take 1 (cells s b)"
  using assms by (simp_all add: fst_create_radar_chart cells_extend_first)

lemma cells_other_after_chart:
  assumes "c \<noteq> a" "c \<noteq> b"
  shows "cells (fst (create_radar_chart numbered s a b cats)) c = cells s c"
  using assms by (simp add: fst_create_radar_chart cells_extend_first)

lemma closed_nonempty:
  assumes "xs \<noteq> []"
  shows "xs @ take 1 xs = xs @ [hd xs]" and "length (xs @ take 1 xs) = length xs + 1"
    and "last (xs @ take 1 xs) = hd xs"
  using assms by (simp_all add: take1_hd)

lemma create_radar_chart_figure:
  assumes "a \<noteq> b" and "length (cells s a) = length cats" and "length (cells s b) = length cats"
    and "cats \<noteq> []"
  shows "snd (create_radar_chart numbered s a b cats)
     = Inr \<lparr>plot_angles = chart_angles (length cats),
            ngo_line = cells s a @ [hd (cells s a)],
            community_outer = replicate (length cats + 1) 10,
            community_fill_values = map (\<lambda>v. 10 - v) (cells s b @ [hd (cells s b)]),
            xticks = butlast (chart_angles (length cats)), xticklabels = cats\<rparr>"
proof -
  let ?r = "create_radar_chart numbered s a b cats"
  have na: "cells s a \<noteq> []" and nb: "cells s b \<noteq> []" using assms by auto
  have ca: "cells (fst ?r) a = cells s a @ [hd (cells s a)]"
    using cells_after_chart(1)[OF assms(1), of numbered s cats] closed_nonempty(1)[OF na] by simp
  have cb: "cells (fst ?r) b = cells s b @ [hd (cells s b)]"
    using cells_after_chart(2)[OF assms(1), of numbered s cats] closed_nonempty(1)[OF nb] by simp
  have la: "length (chart_angles (length cats)) = Suc (length cats)"
    using assms(4) by (simp add: length_chart_angles)
  show ?thesis
    using ca cb la assms(2,3,4)
    by (simp add: create_radar_chart_def Let_def fst_create_radar_chart[symmetric])
qed

text \<open>
  C8. Called for N = 9 categories with two different lists of nine values, the chart
  function returns a figure with ten angles: the nine angles 2\<pi>i/9, strictly increasing
  from 0 and all below 2\<pi>, followed by the first angle again. Each value series is
  closed in the same way: the list of capabilities and the list of capacities both end
  with their own first value after the call, and the plotted lines are these closed
  lists.
\<close>

theorem angles_closed_loop:
  assumes "a \<noteq> b" and "length (cells s a) = 9" and "length (cells s b) = 9"
    and "length cats = 9"
  shows "\<exists>fig. snd (create_radar_chart numbered s a b cats) = Inr fig
     \<and> length (plot_angles fig) = 10
     \<and> (\<forall>i<9. plot_angles fig ! i = 2 * pi * real i / 9)
     \<and> (\<forall>i<9. \<forall>j<9. i < j \<longrightarrow> plot_angles fig ! i < plot_angles fig ! j)
     \<and> plot_angles fig ! 0 = 0 \<and> plot_angles fig ! 8 < 2 * pi
     \<and> plot_angles fig ! 9 = plot_angles fig ! 0
     \<and> ngo_line fig = cells s a @ [hd (cells s a)]
     \<and> cells (fst (create_radar_chart numbered s a b cats)) a = cells s a @ [hd (cells s a)]
     \<and> cells (fst (create_radar_chart numbered s a b cats)) b = cells s b @ [hd (cells s b)]
     \<and> community_fill_values fig = map (\<lambda>v. 10 - v) (cells s b @ [hd (cells s b)])"
proof -
  define fig where "fig = \<lparr>plot_angles = chart_angles (length cats),
      ngo_line = cells s a @ [hd (cells s a)],
      community_outer = replicate (length cats + 1) 10,
      community_fill_values = map (\<lambda>v. 10 - v) (cells s b @ [hd (cells s b)]),
      xticks = butlast (chart_angles (length cats)), xticklabels = cats\<rparr>"
  have c: "cats \<noteq> []" using assms(4) by auto
  have l: "length (cells s a) = length cats" "length (cells s b) = length cats"
    using assms by simp_all
  have r: "snd (create_radar_chart numbered s a b cats) = Inr fig"
    unfolding fig_def by (rule create_radar_chart_figure[OF assms(1) l c])
  have p: "plot_angles fig = chart_angles 9" by (simp add: fig_def assms(4))
  have na: "cells s a \<noteq> []" and nb: "cells s b \<noteq> []" using assms by auto
  have ca: "cells (fst (create_radar_chart numbered s a b cats)) a = cells s a @ [hd (cells s a)]"
    using cells_after_chart(1)[OF assms(1), of numbered s cats] closed_nonempty(1)[OF na] by simp
  have cb: "cells (fst (create_radar_chart numbered s a b cats)) b = cells s b @ [hd (cells s b)]"
    using cells_after_chart(2)[OF assms(1), of numbered s cats] closed_nonempty(1)[OF nb] by simp
  have z: "chart_angles 9 ! 0 = 0" using chart_angles_nth[of 0 9] by simp
  have n1: "length (chart_angles 9) = 10"
    and n2: "\<forall>i<9. chart_angles 9 ! i = 2 * pi * real i / 9"
    and n3: "\<forall>i<9. \<forall>j<9. i < j \<longrightarrow> chart_angles 9 ! i < chart_angles 9 ! j"
    and n4: "chart_angles 9 ! 8 < 2 * pi"
    and n5: "chart_angles 9 ! 9 = chart_angles 9 ! 0"
    using chart_angles_nine by blast+
  show ?thesis
  proof (intro exI[of _ fig] conjI)
    show "snd (create_radar_chart numbered s a b cats) = Inr fig" by (rule r)
    show "length (plot_angles fig) = 10" unfolding p by (rule n1)
    show "\<forall>i<9. plot_angles fig ! i = 2 * pi * real i / 9" unfolding p by (rule n2)
    show "\<forall>i<9. \<forall>j<9. i < j \<longrightarrow> plot_angles fig ! i < plot_angles fig ! j"
      unfolding p by (rule n3)
    show "plot_angles fig ! 0 = 0" unfolding p by (rule z)
    show "plot_angles fig ! 8 < 2 * pi" unfolding p by (rule n4)
    show "plot_angles fig ! 9 = plot_angles fig ! 0" unfolding p by (rule n5)
    show "ngo_line fig = cells s a @ [hd (cells s a)]" by (simp add: fig_def)
    show "cells (fst (create_radar_chart numbered s a b cats)) a = cells s a @ [hd (cells s a)]"
      by (rule ca)
    show "cells (fst (create_radar_chart numbered s a b cats)) b = cells s b @ [hd (cells s b)]"
      by (rule cb)
    show "community_fill_values fig = map (\<lambda>v. 10 - v) (cells s b @ [hd (cells s b)])"
      by (simp add: fig_def)
  qed
qed

theorem angles_closed_loop_witness:
  "\<exists>fig. snd (create_radar_chart True
            (snd (new_list (snd (new_list empty_store [8, 6, 7, 5, 7, 4, 9, 8, 9]))
               [7, 5, 8, 6, 4, 5, 9, 7, 8]))
            0 1 [''a'', ''b'', ''c'', ''d'', ''e'', ''f'', ''g'', ''h'', ''i'']) = Inr fig
     \<and> length (plot_angles fig) = 10
     \<and> plot_angles fig ! 3 < plot_angles fig ! 4
     \<and> plot_angles fig ! 4 = 2 * pi * 4 / 9
     \<and> plot_angles fig ! 9 = plot_angles fig ! 0
     \<and> ngo_line fig = [8, 6, 7, 5, 7, 4, 9, 8, 9, 8]
     \<and> community_fill_values fig = [3, 5, 2, 4, 6, 5, 1, 3, 2, 3]"
  using angles_closed_loop [of 0 1
      "snd (new_list (snd (new_list empty_store [8, 6, 7, 5, 7, 4, 9, 8, 9])) [7, 5, 8, 6, 4, 5, 9, 7, 8])"
      "[''a'', ''b'', ''c'', ''d'', ''e'', ''f'', ''g'', ''h'', ''i'']" True]
  by (simp add: new_list_def empty_store_def) force

text \<open>
  C7. For two distinct lists of as many values as there are categories (at least
  one), the chart is produced, its inner boundary has radius 10 - capacity at every
  point (0 for a capacity of 10, 10 for a capacity of 0, and the closing point repeats
  the first), and its outer ring is the constant 10 at every angle. No bound on the
  values is needed.
\<close>

theorem inner_boundary_radius:
  assumes "a \<noteq> b" and "length (cells s a) = length cats" and "length (cells s b) = length cats"
    and "cats \<noteq> []"
  shows "\<exists>fig. snd (create_radar_chart numbered s a b cats) = Inr fig
     \<and> community_fill_values fig = map (\<lambda>v. 10 - v) (cells s b @ [hd (cells s b)])
     \<and> (\<forall>i<length cats. community_fill_values fig ! i = 10 - cells s b ! i
          \<and> (cells s b ! i = 10 \<longrightarrow> community_fill_values fig ! i = 0)
          \<and> (cells s b ! i = 0 \<longrightarrow> community_fill_values fig ! i = 10))
     \<and> community_outer fig = replicate (length cats + 1) 10"
proof -
  let ?r = "create_radar_chart numbered s a b cats"
  have na: "cells s a \<noteq> []" and nb: "cells s b \<noteq> []" using assms by auto
  have ca: "cells (fst ?r) a = cells s a @ [hd (cells s a)]"
    using cells_after_chart(1)[OF assms(1), of numbered s cats] closed_nonempty(1)[OF na] by simp
  have cb: "cells (fst ?r) b = cells s b @ [hd (cells s b)]"
    using cells_after_chart(2)[OF assms(1), of numbered s cats] closed_nonempty(1)[OF nb] by simp
  have la: "length (chart_angles (length cats)) = Suc (length cats)"
    using assms(4) by (simp add: length_chart_angles)
  define fig where "fig = \<lparr>plot_angles = chart_angles (length cats),
      ngo_line = cells s a @ [hd (cells s a)],
      community_outer = replicate (length cats + 1) 10,
      community_fill_values = map (\<lambda>v. 10 - v) (cells s b @ [hd (cells s b)]),
      xticks = butlast (chart_angles (length cats)), xticklabels = cats\<rparr>"
  have r: "snd ?r = Inr fig"
    using ca cb la assms(2,3,4)
    by (simp add: create_radar_chart_def Let_def fig_def fst_create_radar_chart[symmetric])
  have f: "\<forall>i<length cats. community_fill_values fig ! i = 10 - cells s b ! i"
    using assms(3) by (simp add: fig_def nth_append)
  show ?thesis
    apply (rule exI[of _ fig])
    using r f by (simp add: fig_def)
qed


theorem inner_boundary_radius_witness:
  "(0::nat) \<noteq> 1
   \<and> length (cells (snd (new_list (snd (new_list empty_store [5, 4, 5])) [10, 0, 7])) 0) = length [''x'', ''y'', ''z'']
   \<and> length (cells (snd (new_list (snd (new_list empty_store [5, 4, 5])) [10, 0, 7])) 1) = length [''x'', ''y'', ''z'']
   \<and> [''x'', ''y'', ''z''] \<noteq> []
   \<and> (\<exists>fig. snd (create_radar_chart True (snd (new_list (snd (new_list empty_store [5, 4, 5])) [10, 0, 7]))
                    0 1 [''x'', ''y'', ''z'']) = Inr fig
        \<and> community_fill_values fig = [0, 10, 3, 0]
        \<and> community_outer fig = [10, 10, 10, 10])"
  using inner_boundary_radius [of 0 1 "snd (new_list (snd (new_list empty_store [5, 4, 5])) [10, 0, 7])"
      "[''x'', ''y'', ''z'']" True]
  by (simp add: new_list_def empty_store_def) blast

lemma cells_list_copy:
  assumes "c < next_addr s"
  shows "cells (snd (list_copy s a)) c = cells s c"
    and "c < next_addr (snd (list_copy s a))" and "c \<noteq> fst (list_copy s a)"
  using assms by (simp_all add: list_copy_def new_list_def)

lemma cells_chart_of_copies:
  assumes "c < next_addr s"
  shows "cells (fst (chart_of_copies numbered s ngo comm themes)) c = cells s c"
proof -
  let ?s1 = "snd (list_copy s ngo)" and ?n = "fst (list_copy s ngo)"
  let ?s2 = "snd (list_copy ?s1 comm)" and ?c = "fst (list_copy ?s1 comm)"
  have e: "chart_of_copies numbered s ngo comm themes = create_radar_chart numbered ?s2 ?n ?c themes"
    by (simp add: chart_of_copies_def split_beta Let_def)
  have 1: "c \<noteq> ?n" "c < next_addr ?s1" "cells ?s1 c = cells s c"
    using cells_list_copy[OF assms, of ngo] by simp_all
  have 2: "c \<noteq> ?c" "cells ?s2 c = cells ?s1 c"
    using cells_list_copy[OF 1(2), of comm] by simp_all
  show ?thesis unfolding e using cells_other_after_chart[OF 1(1) 2(1), of numbered ?s2 themes] 1(3) 2(2)
    by simp
qed

text \<open>
  C9. \<^verbatim>\<open>create_radar_chart\<close> changes its list arguments: called with two different lists
  of N values each, N at least 1, it appends to each list that list's first element, so
  that after the call (whether it returned a figure or raised) both lists have N + 1
  elements and end with their first element. Both \<^verbatim>\<open>main\<close> functions pass copies, so their
  own two lists of nine values are unchanged by the call and still have nine elements
  when the scores are computed.
\<close>

theorem radar_chart_appends_in_place:
  "(a \<noteq> b \<and> length (cells s a) = N \<and> length (cells s b) = N \<and> 1 \<le> N \<longrightarrow>
      cells (fst (create_radar_chart numbered s a b cats)) a = cells s a @ [hd (cells s a)]
      \<and> cells (fst (create_radar_chart numbered s a b cats)) b = cells s b @ [hd (cells s b)]
      \<and> length (cells (fst (create_radar_chart numbered s a b cats)) a) = N + 1
      \<and> length (cells (fst (create_radar_chart numbered s a b cats)) b) = N + 1
      \<and> last (cells (fst (create_radar_chart numbered s a b cats)) a) = hd (cells s a)
      \<and> last (cells (fst (create_radar_chart numbered s a b cats)) b) = hd (cells s b))
   \<and> (ngo < next_addr s \<and> comm < next_addr s
        \<and> length (cells s ngo) = 9 \<and> length (cells s comm) = 9 \<longrightarrow>
        cells (fst (chart_of_copies numbered s ngo comm themes)) ngo = cells s ngo
        \<and> cells (fst (chart_of_copies numbered s ngo comm themes)) comm = cells s comm
        \<and> length (cells (fst (chart_of_copies numbered s ngo comm themes)) ngo) = 9
        \<and> length (cells (fst (chart_of_copies numbered s ngo comm themes)) comm) = 9)"
proof (intro conjI impI)
  assume h: "a \<noteq> b \<and> length (cells s a) = N \<and> length (cells s b) = N \<and> 1 \<le> N"
  let ?s' = "fst (create_radar_chart numbered s a b cats)"
  from h have ab: "a \<noteq> b" and na: "cells s a \<noteq> []" and nb: "cells s b \<noteq> []" by auto
  from h have la: "length (cells s a) = N" and lb: "length (cells s b) = N" by simp_all
  have ca: "cells ?s' a = cells s a @ take 1 (cells s a)"
    by (rule cells_after_chart(1)[OF ab])
  have cb: "cells ?s' b = cells s b @ take 1 (cells s b)"
    by (rule cells_after_chart(2)[OF ab])
  show "cells ?s' a = cells s a @ [hd (cells s a)]" unfolding ca by (rule closed_nonempty(1)[OF na])
  show "cells ?s' b = cells s b @ [hd (cells s b)]" unfolding cb by (rule closed_nonempty(1)[OF nb])
  show "length (cells ?s' a) = N + 1" unfolding ca using closed_nonempty(2)[OF na] la by simp
  show "length (cells ?s' b) = N + 1" unfolding cb using closed_nonempty(2)[OF nb] lb by simp
  show "last (cells ?s' a) = hd (cells s a)" unfolding ca by (rule closed_nonempty(3)[OF na])
  show "last (cells ?s' b) = hd (cells s b)" unfolding cb by (rule closed_nonempty(3)[OF nb])
next
  assume h: "ngo < next_addr s \<and> comm < next_addr s
        \<and> length (cells s ngo) = 9 \<and> length (cells s comm) = 9"
  then have n: "cells (fst (chart_of_copies numbered s ngo comm themes)) ngo = cells s ngo"
    and c: "cells (fst (chart_of_copies numbered s ngo comm themes)) comm = cells s comm"
    using cells_chart_of_copies by blast+
  show "cells (fst (chart_of_copies numbered s ngo comm themes)) ngo = cells s ngo" by (rule n)
  show "cells (fst (chart_of_copies numbered s ngo comm themes)) comm = cells s comm" by (rule c)
  show "length (cells (fst (chart_of_copies numbered s ngo comm themes)) ngo) = 9"
    unfolding n using h by simp
  show "length (cells (fst (chart_of_copies numbered s ngo comm themes)) comm) = 9"
    unfolding c using h by simp
qed

theorem radar_chart_appends_in_place_witness:
  "cells (fst (create_radar_chart False
        (snd (new_list (snd (new_list empty_store [5, 4, 5, 3, 4, 2, 4, 6, 6]))
           [7, 5, 8, 6, 4, 5, 9, 7, 8]))
        0 1 [''a'', ''b'', ''c'', ''d'', ''e'', ''f'', ''g'', ''h'', ''i''])) 0
     = [5, 4, 5, 3, 4, 2, 4, 6, 6, 5]
   \<and> cells (fst (create_radar_chart False
        (snd (new_list (snd (new_list empty_store [5, 4, 5, 3, 4, 2, 4, 6, 6]))
           [7, 5, 8, 6, 4, 5, 9, 7, 8]))
        0 1 [''a'', ''b'', ''c'', ''d'', ''e'', ''f'', ''g'', ''h'', ''i''])) 1
     = [7, 5, 8, 6, 4, 5, 9, 7, 8, 7]
   \<and> cells (fst (chart_of_copies False
        (snd (new_list (snd (new_list empty_store [5, 4, 5, 3, 4, 2, 4, 6, 6]))
           [7, 5, 8, 6, 4, 5, 9, 7, 8]))
        0 1 [''a'', ''b'', ''c'', ''d'', ''e'', ''f'', ''g'', ''h'', ''i''])) 0
     = [5, 4, 5, 3, 4, 2, 4, 6, 6]
   \<and> cells (fst (chart_of_copies False
        (snd (new_list (snd (new_list empty_store [5, 4, 5, 3, 4, 2, 4, 6, 6]))
           [7, 5, 8, 6, 4, 5, 9, 7, 8]))
        0 1 [''a'', ''b'', ''c'', ''d'', ''e'', ''f'', ''g'', ''h'', ''i''])) 1
     = [7, 5, 8, 6, 4, 5, 9, 7, 8]"
  using radar_chart_appends_in_place [of 0 1
      "snd (new_list (snd (new_list empty_store [5, 4, 5, 3, 4, 2, 4, 6, 6])) [7, 5, 8, 6, 4, 5, 9, 7, 8])"
      9 False "[''a'', ''b'', ''c'', ''d'', ''e'', ''f'', ''g'', ''h'', ''i'']" 0 1
      "[''a'', ''b'', ''c'', ''d'', ''e'', ''f'', ''g'', ''h'', ''i'']"]
  by (simp add: new_list_def empty_store_def)

text \<open>
  The same list passed for both arguments is extended twice, and the plot then fails on
  the lengths; the statements above are about two different list objects. Of an empty
  list nothing is appended: \<^verbatim>\<open>xs[:1]\<close> is then empty.
\<close>

lemma radar_chart_same_list_twice:
  "create_radar_chart False (snd (new_list empty_store [5, 4, 5])) 0 0 [''x'', ''y'', ''z'']
     = (\<lparr>cells = (cells empty_store)(0 := [5, 4, 5, 5, 5]), next_addr = 1\<rparr>, Inl ValueError)"
  by (simp add: create_radar_chart_def extend_first_def new_list_def empty_store_def Let_def
      length_chart_angles)

section \<open>Properties of the recommendation lookup\<close>

lemma recommendation_income:
  "recommendation ''2.1 Income & Revenue''
     = ''improving communication on the effects of conservation, or reaching out to younger generations''"
  by code_simp

lemma recommendation_fallback: "recommendation ''Fisheries'' = ''general strategic adjustments''"
  by code_simp

lemma split_first_key:
  "split (lower ''1.1 Awareness & Education'') = [''1.1'', ''awareness'', ''&'', ''education'']"
  by code_simp

lemma catalogue_income:
  "map_of strategic_recommendations ''2.1 Income & Revenue''
     = Some ''adapting business model to increase the portion of the revenue reserved for tour guide salaries and conservation''"
  by code_simp

text \<open>
  C1. A theme with a score in [-2,0) gets the text of the first catalogue entry, in the
  catalogue's order, whose lower-cased name or one of whose words occurs in the
  lower-cased label, and the generic text when there is none. The theme
  "2.1 Income & Revenue" with capability 6 and capacity 3 should so get the income and
  revenue text that the catalogue holds under that very name. It gets the text of the
  first entry instead: the words of "1.1 Awareness & Education" include "&", which
  occurs in the label.
\<close>

theorem income_label_gets_awareness_text:
  "theme_comment ''2.1 Income & Revenue'' 6 3
     = (PartialGap, Some ''improving communication on the effects of conservation, or reaching out to younger generations'')
   \<and> map_of strategic_recommendations ''2.1 Income & Revenue''
     = Some ''adapting business model to increase the portion of the revenue reserved for tour guide salaries and conservation''
   \<and> split (lower ''1.1 Awareness & Education'') = [''1.1'', ''awareness'', ''&'', ''education'']
   \<and> recommendation ''Fisheries'' = ''general strategic adjustments''"
proof -
  have "score 6 3 = -1" using score_whole_numbers[of 6 3] by simp
  then have "band_of (score 6 3) = PartialGap" by (simp add: band_of_def)
  then have "theme_comment ''2.1 Income & Revenue'' 6 3
     = (PartialGap, Some (recommendation ''2.1 Income & Revenue''))"
    by (simp add: theme_comment_def)
  then show ?thesis
    by (simp only: recommendation_income recommendation_fallback split_first_key catalogue_income simp_thms)
qed

section \<open>Properties of the loader\<close>

lemmas load_defs = load_data_from_csv_def read_csv_def load_frame_def validate_rows_def
  header_skip_def iloc_def to_numeric_def to_float_def in_range_def

lemmas example_defs = header_line_def example_rows_def example_themes_def example_community_def
  example_ngo_def

text \<open>
  C2. A file with a header line and nine valid data rows, and the same file without the
  header line, should load to the same assessment. The first does. The second is
  rejected: the reader takes its first data row for the column names, eight rows are
  left, and the loader asks for at least 9 rows. The skip of a non-numeric row 0 only
  serves a second header line below the column names.
\<close>

theorem headerless_file_rejected:
  "load_data_from_csv (header_line # example_rows) = Inr (example_themes, example_community, example_ngo)
   \<and> load_data_from_csv example_rows = Inl (RowCountError 9)
   \<and> load_data_from_csv (header_line # header_line # example_rows)
       = Inr (example_themes, example_community, example_ngo)"
  by (simp add: load_defs example_defs)

text \<open>
  C4. A value of 11 in the fifth data row should be reported by the row's position in
  the uploaded file: row 5 without a header line, row 6 below one. The loader reports
  the position among the rows of the frame, which never count the file's first line:
  row 5 for the file with a header line (the value is on line 6), row 4 for a file of
  ten data rows without header line (the value is on line 5), and row 6 only below two
  header lines (the value is on line 7).
\<close>

theorem range_error_row_number:
  "load_data_from_csv (header_line # example_rows[4 := [Text ''2.2 Employment'', Num 11, Num 7] ])
     = Inl (RangeError 5)
   \<and> load_data_from_csv (example_rows[4 := [Text ''2.2 Employment'', Num 11, Num 7] ]
                           @ [ [Text ''4.1 Extra'', Num 1, Num 1] ])
     = Inl (RangeError 4)
   \<and> load_data_from_csv (header_line # header_line
                           # example_rows[4 := [Text ''2.2 Employment'', Num 11, Num 7] ])
     = Inl (RangeError 6)"
  by (simp add: load_defs example_defs)


lemma load_data_from_csv_frame:
  "read_csv uploaded_file = Inr df \<Longrightarrow> load_data_from_csv uploaded_file = load_frame df"
  by (simp add: load_data_from_csv_def)

lemma header_skip_cases: "header_skip body = 0 \<or> header_skip body = 1"
  by (simp add: header_skip_def)





text \<open>
  No file of at most nine lines is loaded, whatever its first line is. On the frame
  itself a non-numeric row 0 is skipped as described: the frame with such a row above at
  least nine rows loads to the same assessment as the frame without it.
\<close>

lemma nine_line_file_rejected:
  assumes "length uploaded_file \<le> 9"
  shows "\<exists>e. load_data_from_csv uploaded_file = Inl e"
proof (cases "read_csv uploaded_file")
  case (Inl e)
  then show ?thesis by (simp add: load_data_from_csv_def)
next
  case (Inr df)
  then obtain names body where f: "filter (\<lambda>l. l \<noteq> []) uploaded_file = names # body"
    by (auto simp: read_csv_def split: list.splits)
  have "length (filter (\<lambda>l. l \<noteq> []) uploaded_file) \<le> 9"
    using assms length_filter_le[of "\<lambda>l. l \<noteq> []" uploaded_file] by linarith
  then have "length body \<le> 8" unfolding f by simp
  moreover have "length (rows df) = length body"
    using Inr f by (auto simp: read_csv_def Let_def split: if_splits)
  ultimately have "length (rows df) < header_skip (rows df) + 9" by simp
  then have "\<exists>e. load_frame df = Inl e" by (simp add: load_frame_def Let_def)
  then show ?thesis using load_data_from_csv_frame[OF Inr] by simp
qed

lemma validate_rows_Inr:
  "validate_rows s selected = Inr a \<longleftrightarrow> validate_rows t selected = Inr a"
  by (simp add: validate_rows_def Let_def split: option.splits)

lemma frame_header_row_skipped:
  assumes "\<not> (to_numeric (iloc h 1) \<and> to_numeric (iloc h 2))" and "header_skip d = 0"
    and "9 \<le> length d"
  shows "load_frame \<lparr>ncols = n, rows = h # d\<rparr> = Inr a \<longleftrightarrow> load_frame \<lparr>ncols = n, rows = d\<rparr> = Inr a"
proof -
  have h: "header_skip (h # d) = 1" using assms(1) by (simp add: header_skip_def)
  have d: "d \<noteq> []" using assms(3) by auto
  have 1: "load_frame \<lparr>ncols = n, rows = h # d\<rparr>
             = (if n < 3 then Inl SchemaError else validate_rows 1 (take 9 d))"
    using assms(3) by (simp add: load_frame_def Let_def h)
  have 2: "load_frame \<lparr>ncols = n, rows = d\<rparr>
             = (if n < 3 then Inl SchemaError else validate_rows 0 (take 9 d))"
    using assms(2,3) d by (simp add: load_frame_def Let_def)
  show ?thesis unfolding 1 2 using validate_rows_Inr[of 1 "take 9 d" a 0] by simp
qed




end
